theory Spec2Isabelle
  imports Main "HOL-Library.Word" "HOL-Library.AList"
begin

section \<open>Python values seen by the facade\<close>

text \<open>
  The class \<^verbatim>\<open>KVS\<close> of \<^verbatim>\<open>kvs.py\<close> is embedded function by function. Exceptions are
  values of the type \<open>error\<close>; a method that can raise returns \<open>error + result\<close>, with
  \<open>Inl\<close> for the exception. A method that mutates the store returns the new store.
\<close>

type_synonym byte = "8 word"
type_synonym bytes = "byte list"

text \<open>A Python \<^verbatim>\<open>str\<close> is a sequence of code points (below \<open>0x110000\<close>, lone surrogates included).\<close>

type_synonym pystr = "nat list"

datatype error = TypeError | UnicodeEncodeError | KeyError | CodecFailure

text \<open>
  \<^verbatim>\<open>_convert\<close> looks at a key through \<^verbatim>\<open>isinstance\<close> and \<^verbatim>\<open>str()\<close> only. The numeric
  types and the hashable collections are the two groups its last two tests name.
  \<^verbatim>\<open>bool\<close> is a subclass of \<^verbatim>\<open>int\<close>, so \<^verbatim>\<open>isinstance(True, int)\<close> holds. A float, a complex
  number, a tuple and a frozen set are represented by the text \<^verbatim>\<open>str()\<close> yields for them:
  the formatting of these types belongs to the Python runtime, and the text is all that
  \<^verbatim>\<open>_convert\<close> reads of them. \<open>PyOther\<close> stands for an object of any other class
  (\<^verbatim>\<open>None\<close>, a list, a dict, a set, ...), with the name of its class.
\<close>

datatype number = PInt int | PBool bool | PFloat pystr | PComplex pystr

datatype collection = PRange int int int | PTuple pystr | PFrozenSet pystr

datatype pyobj =
    PyBytes bytes
  | PyStr pystr
  | PyByteArray bytes
  | PyNumber number
  | PyCollection collection
  | PyOther string

definition text_of :: "string \<Rightarrow> pystr" where
  "text_of s = map of_char s"

text \<open>\<^verbatim>\<open>str(n)\<close> for an integer: decimal digits, with a leading minus sign.\<close>

fun str_nat :: "nat \<Rightarrow> pystr" where
  "str_nat n = (if n < 10 then [48 + n] else str_nat (n div 10) @ [48 + n mod 10])"

declare str_nat.simps [simp del]

definition str_int :: "int \<Rightarrow> pystr" where
  "str_int i = (if i < 0 then 45 # str_nat (nat (- i)) else str_nat (nat i))"

fun str_number :: "number \<Rightarrow> pystr" where
  "str_number (PInt i) = str_int i"
| "str_number (PBool b) = (if b then text_of ''True'' else text_of ''False'')"
| "str_number (PFloat t) = t"
| "str_number (PComplex t) = t"

text \<open>\<^verbatim>\<open>str(range(a, b, c))\<close> omits the step when it is 1.\<close>

fun str_collection :: "collection \<Rightarrow> pystr" where
  "str_collection (PRange a b c) =
     (if c = 1 then text_of ''range('' @ str_int a @ text_of '', '' @ str_int b @ text_of '')''
      else text_of ''range('' @ str_int a @ text_of '', '' @ str_int b @ text_of '', ''
             @ str_int c @ text_of '')'')"
| "str_collection (PTuple t) = t"
| "str_collection (PFrozenSet t) = t"

text \<open>
  \<^verbatim>\<open>s.encode(encoding = 'UTF8')\<close>: one to four bytes per code point; a surrogate code
  point cannot be encoded and raises \<^verbatim>\<open>UnicodeEncodeError\<close>.
\<close>

definition utf8_char :: "nat \<Rightarrow> error + bytes" where
  "utf8_char c =
     (if c < 0x80 then Inr [of_nat c]
      else if c < 0x800 then Inr [of_nat (0xC0 + c div 0x40), of_nat (0x80 + c mod 0x40)]
      else if 0xD800 \<le> c \<and> c < 0xE000 then Inl UnicodeEncodeError
      else if c < 0x10000 then
        Inr [of_nat (0xE0 + c div 0x1000), of_nat (0x80 + c div 0x40 mod 0x40),
             of_nat (0x80 + c mod 0x40)]
      else
        Inr [of_nat (0xF0 + c div 0x40000), of_nat (0x80 + c div 0x1000 mod 0x40),
             of_nat (0x80 + c div 0x40 mod 0x40), of_nat (0x80 + c mod 0x40)])"

fun encode_utf8 :: "pystr \<Rightarrow> error + bytes" where
  "encode_utf8 [] = Inr []"
| "encode_utf8 (c # cs) =
     (case utf8_char c of
        Inl e \<Rightarrow> Inl e
      | Inr bs \<Rightarrow> (case encode_utf8 cs of Inl e \<Rightarrow> Inl e | Inr rest \<Rightarrow> Inr (bs @ rest)))"

section \<open>Key normalisation\<close>

text \<open>\<^verbatim>\<open>KVS._convert\<close>, the tests in the order of the source.\<close>

fun convert :: "pyobj \<Rightarrow> error + bytes" where
  "convert (PyBytes b) = Inr b"
| "convert (PyStr s) = encode_utf8 s"
| "convert (PyByteArray b) = Inr b"
| "convert (PyNumber n) = encode_utf8 (str_number n)"
| "convert (PyCollection c) = encode_utf8 (str_collection c)"
| "convert (PyOther cls) = Inl TypeError"

section \<open>Backends and the codec\<close>

text \<open>
  The facade probes its backend with \<^verbatim>\<open>hasattr\<close> for the names below and falls back on
  the item protocol (\<^verbatim>\<open>__getitem__\<close>, \<^verbatim>\<open>__setitem__\<close>, \<^verbatim>\<open>__delitem__\<close>), which it calls
  without probing. A backend is therefore a mapping from byte strings to byte strings
  (in insertion order, as a \<^verbatim>\<open>dict\<close> keeps it), the list of probed names it exposes,
  and the record of the life-cycle calls it has received (oldest first). Its methods
  behave as those of a Python mapping: \<^verbatim>\<open>get\<close> yields \<^verbatim>\<open>None\<close> for a missing key,
  \<^verbatim>\<open>__getitem__\<close> and \<^verbatim>\<open>__delitem__\<close> raise \<^verbatim>\<open>KeyError\<close>, a native \<^verbatim>\<open>delete\<close> ignores a
  missing key. What a backend raises once it has been closed is not part of the model.
\<close>

datatype attr =
    A_get | A_set | A_delete | A_contains | A_keys | A_values | A_items
  | A_sync | A_reorganize | A_close | A_clear | A_flushall | A_flush_all

record backend =
  attrs :: "attr list"
  entries :: "(bytes \<times> bytes) list"
  calls :: "attr list"

definition hasattr :: "backend \<Rightarrow> attr \<Rightarrow> bool" where
  "hasattr b a = (a \<in> set (attrs b))"

definition native_get :: "backend \<Rightarrow> bytes \<Rightarrow> bytes option" where
  "native_get b k = map_of (entries b) k"

definition native_getitem :: "backend \<Rightarrow> bytes \<Rightarrow> error + bytes option" where
  "native_getitem b k =
     (case map_of (entries b) k of None \<Rightarrow> Inl KeyError | Some v \<Rightarrow> Inr (Some v))"

definition native_set :: "backend \<Rightarrow> bytes \<Rightarrow> bytes \<Rightarrow> backend" where
  "native_set b k v = b\<lparr>entries := AList.update k v (entries b)\<rparr>"

definition native_setitem :: "backend \<Rightarrow> bytes \<Rightarrow> bytes \<Rightarrow> backend" where
  "native_setitem b k v = b\<lparr>entries := AList.update k v (entries b)\<rparr>"

definition native_delete :: "backend \<Rightarrow> bytes \<Rightarrow> error + backend" where
  "native_delete b k = Inr (b\<lparr>entries := AList.delete k (entries b)\<rparr>)"

definition native_delitem :: "backend \<Rightarrow> bytes \<Rightarrow> error + backend" where
  "native_delitem b k =
     (case map_of (entries b) k of
        None \<Rightarrow> Inl KeyError
      | Some v \<Rightarrow> Inr (b\<lparr>entries := AList.delete k (entries b)\<rparr>))"




definition native_call :: "attr \<Rightarrow> backend \<Rightarrow> backend" where
  "native_call a b = b\<lparr>calls := calls b @ [a]\<rparr>"

text \<open>
  The probed names a \<^verbatim>\<open>dict\<close> exposes, and the transient backend \<^verbatim>\<open>{}\<close> holding the
  given entries. A \<^verbatim>\<open>dict\<close> has no \<^verbatim>\<open>set\<close>, \<^verbatim>\<open>delete\<close>, \<^verbatim>\<open>sync\<close>, \<^verbatim>\<open>reorganize\<close> or \<^verbatim>\<open>close\<close>.
\<close>

definition dict_attrs :: "attr list" where
  "dict_attrs = [A_get, A_contains, A_keys, A_values, A_items, A_clear]"

definition dict_backend :: "(bytes \<times> bytes) list \<Rightarrow> backend" where
  "dict_backend es = \<lparr>attrs = dict_attrs, entries = es, calls = []\<rparr>"

text \<open>
  The serializer: \<^verbatim>\<open>dumps\<close> is applied to values other than \<^verbatim>\<open>None\<close> only, \<^verbatim>\<open>loads\<close> may
  yield \<^verbatim>\<open>None\<close>. A value of the facade is \<open>'v option\<close>, with \<open>None\<close> for Python's \<^verbatim>\<open>None\<close>.
\<close>

record 'v codec =
  dumps :: "'v \<Rightarrow> error + bytes"
  loads :: "bytes \<Rightarrow> error + 'v option"

text \<open>The two slots of a \<^verbatim>\<open>KVS\<close> object.\<close>

record 'v store =
  database :: backend
  serialize :: "'v codec"

text \<open>\<^verbatim>\<open>KVS(':memory:', serialize = c)\<close>: the constructor's in-memory branch.\<close>

definition new_memory :: "'v codec \<Rightarrow> 'v store" where
  "new_memory c = \<lparr>database = dict_backend [], serialize = c\<rparr>"

section \<open>The facade\<close>

text \<open>
  The methods are embedded as called with a key (and a value) only: the extra positional
  and keyword arguments, which a native \<^verbatim>\<open>get\<close>, \<^verbatim>\<open>set\<close> or \<^verbatim>\<open>delete\<close> receives unchanged,
  are empty.

  \<^verbatim>\<open>KVS.__getitem__\<close> (alias \<^verbatim>\<open>get\<close>): a falsy result of the backend, \<^verbatim>\<open>None\<close> or the empty
  byte string, gives \<^verbatim>\<open>None\<close> without a call of \<^verbatim>\<open>loads\<close>.
\<close>

definition getitem :: "'v store \<Rightarrow> pyobj \<Rightarrow> error + 'v option" where
  "getitem s key =
     (case convert key of
        Inl e \<Rightarrow> Inl e
      | Inr k \<Rightarrow>
          (case (if hasattr (database s) A_get then Inr (native_get (database s) k)
                 else native_getitem (database s) k) of
             Inl e \<Rightarrow> Inl e
           | Inr None \<Rightarrow> Inr None
           | Inr (Some b) \<Rightarrow> (if b \<noteq> [] then loads (serialize s) b else Inr None)))"

text \<open>
  \<^verbatim>\<open>KVS.__delitem__\<close> (alias \<^verbatim>\<open>delete\<close>): only \<^verbatim>\<open>KeyError\<close> is caught. The value the method
  returns (that of the backend's method, or \<^verbatim>\<open>None\<close>) is left out.
\<close>

definition delitem :: "'v store \<Rightarrow> pyobj \<Rightarrow> error + 'v store" where
  "delitem s key =
     (case convert key of
        Inl e \<Rightarrow> Inl e
      | Inr k \<Rightarrow>
          (case (if hasattr (database s) A_delete then native_delete (database s) k
                 else native_delitem (database s) k) of
             Inl e \<Rightarrow> (if e = KeyError then Inr s else Inl e)
           | Inr db \<Rightarrow> Inr (s\<lparr>database := db\<rparr>)))"

text \<open>
  \<^verbatim>\<open>KVS.__setitem__\<close> (aliases \<^verbatim>\<open>set\<close>, \<^verbatim>\<open>put\<close>). The \<^verbatim>\<open>None\<close> branch hands the key it
  has already converted to \<^verbatim>\<open>__delitem__\<close>.
\<close>

definition setitem :: "'v store \<Rightarrow> pyobj \<Rightarrow> 'v option \<Rightarrow> error + 'v store" where
  "setitem s key val =
     (case convert key of
        Inl e \<Rightarrow> Inl e
      | Inr k \<Rightarrow>
          (case val of
             Some v \<Rightarrow>
               (case dumps (serialize s) v of
                  Inl e \<Rightarrow> Inl e
                | Inr b \<Rightarrow>
                    Inr (s\<lparr>database :=
                      (if hasattr (database s) A_set then native_set (database s) k b
                       else native_setitem (database s) k b)\<rparr>))
           | None \<Rightarrow> delitem s (PyBytes k)))"


text \<open>\<^verbatim>\<open>KVS.pop\<close>: read, then delete, then return what was read.\<close>

definition pop :: "'v store \<Rightarrow> pyobj \<Rightarrow> error + ('v option \<times> 'v store)" where
  "pop s key =
     (case getitem s key of
        Inl e \<Rightarrow> Inl e
      | Inr r \<Rightarrow> (case delitem s key of Inl e \<Rightarrow> Inl e | Inr s' \<Rightarrow> Inr (r, s')))"


text \<open>\<^verbatim>\<open>KVS.sync\<close>, \<^verbatim>\<open>KVS.optimize\<close>, \<^verbatim>\<open>KVS.close\<close> and the finalizer \<^verbatim>\<open>KVS.__del__\<close>.\<close>

definition sync :: "'v store \<Rightarrow> 'v store" where
  "sync s =
     (if hasattr (database s) A_sync then s\<lparr>database := native_call A_sync (database s)\<rparr>
      else s)"


definition close :: "'v store \<Rightarrow> 'v store" where
  "close s =
     (let s1 = sync s in
      if hasattr (database s1) A_close then s1\<lparr>database := native_call A_close (database s1)\<rparr>
      else s1)"

definition kvs_del :: "'v store \<Rightarrow> 'v store" where
  "kvs_del s = close (sync s)"




section \<open>Backends and serializers used as examples\<close>

text \<open>
  The probed names a \<^verbatim>\<open>dbm.gnu\<close> handle exposes: it has \<^verbatim>\<open>get\<close>, membership and \<^verbatim>\<open>keys\<close>,
  and the life-cycle methods \<^verbatim>\<open>sync\<close>, \<^verbatim>\<open>reorganize\<close> and \<^verbatim>\<open>close\<close>.
\<close>

definition dbm_attrs :: "attr list" where
  "dbm_attrs = [A_get, A_contains, A_keys, A_sync, A_reorganize, A_close]"

definition dbm_backend :: "(bytes \<times> bytes) list \<Rightarrow> backend" where
  "dbm_backend es = \<lparr>attrs = dbm_attrs, entries = es, calls = []\<rparr>"

text \<open>
  An external store that exposes none of the probed names: an object of a class that
  defines \<^verbatim>\<open>__getitem__\<close>, \<^verbatim>\<open>__setitem__\<close> and \<^verbatim>\<open>__delitem__\<close> over a mapping and nothing else.
\<close>

definition bare_backend :: "(bytes \<times> bytes) list \<Rightarrow> backend" where
  "bare_backend es = \<lparr>attrs = [], entries = es, calls = []\<rparr>"

text \<open>
  Two serializers over byte strings a caller may pass as \<^verbatim>\<open>serialize\<close>: one whose
  \<^verbatim>\<open>dumps\<close> and \<^verbatim>\<open>loads\<close> are the identity, and one that puts a tag byte in front.
\<close>

definition raw_codec :: "bytes codec" where
  "raw_codec = \<lparr>dumps = (\<lambda>v. Inr v), loads = (\<lambda>b. Inr (Some b))\<rparr>"

definition tagged_codec :: "bytes codec" where
  "tagged_codec = \<lparr>dumps = (\<lambda>v. Inr (1 # v)), loads = (\<lambda>b. Inr (Some (tl b)))\<rparr>"

section \<open>Predicates of the properties\<close>

text \<open>
  \<open>frame_except ck s s'\<close>: going from \<open>s\<close> to \<open>s'\<close>, every canonical key other than \<open>ck\<close>
  keeps its encoded value (or its absence), and the backend object (the names it exposes,
  the life-cycle calls it has received) and the serializer are the same.
\<close>

definition frame_except :: "bytes \<Rightarrow> 'v store \<Rightarrow> 'v store \<Rightarrow> bool" where
  "frame_except ck s s' \<longleftrightarrow>
     (\<forall>k'. k' \<noteq> ck \<longrightarrow> map_of (entries (database s')) k' = map_of (entries (database s)) k')
     \<and> attrs (database s') = attrs (database s)
     \<and> calls (database s') = calls (database s)
     \<and> serialize s' = serialize s"





section \<open>Key normalisation: the mapping by type\<close>




section \<open>Operations see a key through its canonical form\<close>


lemma delitem_canonical: "convert k = Inr ck \<Longrightarrow> delitem s k = delitem s (PyBytes ck)"
  by (simp add: delitem_def)

lemma setitem_None: "convert k = Inr ck \<Longrightarrow> setitem s k None = delitem s k"
  by (simp add: setitem_def delitem_def)



section \<open>Deleting\<close>

lemma delete_absent: "map_of es k = None \<Longrightarrow> AList.delete k es = es"
  by (induction es) (auto split: if_splits)

text \<open>
  Claim C3. For every key that normalises and every store state, \<^verbatim>\<open>delete\<close> returns: the
  \<^verbatim>\<open>KeyError\<close> of a backend that does not hold the key is caught, and the store is then
  left as it was. After a delete the key is absent, so a second delete returns as well
  and changes nothing.
\<close>

theorem delete_idempotent:
  assumes "convert k = Inr ck"
  shows "(\<exists>s'. delitem s k = Inr s' \<and> map_of (entries (database s')) ck = None
            \<and> delitem s' k = Inr s')
       \<and> (map_of (entries (database s)) ck = None \<longrightarrow> delitem s k = Inr s)"
  using assms
  by (auto simp: delitem_def native_delete_def native_delitem_def AList.delete_conv'
      AList.delete_idem delete_absent split: option.splits)

text \<open>Deleting a stored key empties the store; deleting it again leaves the empty store.\<close>

theorem delete_idempotent_witness:
  "convert (PyStr [97]) = Inr [97]
   \<and> delitem \<lparr>database = dict_backend [([97], [1])], serialize = raw_codec\<rparr> (PyStr [97])
       = Inr (new_memory raw_codec)
   \<and> delitem (new_memory raw_codec) (PyStr [97]) = Inr (new_memory raw_codec)"
proof -
  have h: "convert (PyStr [97]) = Inr [97]" by (simp add: utf8_char_def)
  have d: "delitem \<lparr>database = dict_backend [([97], [1])], serialize = raw_codec\<rparr> (PyStr [97])
       = Inr (new_memory raw_codec)"
    by (simp add: delitem_def utf8_char_def dict_backend_def dict_attrs_def hasattr_def
        native_delitem_def new_memory_def)
  from delete_idempotent [OF h, of "new_memory raw_codec"] h d show ?thesis
    by (simp add: new_memory_def dict_backend_def)
qed

lemma delitem_returns:
  assumes "convert k = Inr ck"
  shows "\<exists>s'. delitem s k = Inr s' \<and> map_of (entries (database s')) ck = None"
  using assms
  by (auto simp: delitem_def native_delete_def native_delitem_def AList.delete_conv'
      split: option.splits)

lemma delitem_absent:
  assumes "convert k = Inr ck" and "map_of (entries (database s)) ck = None"
  shows "delitem s k = Inr s"
  using assms
  by (simp add: delitem_def native_delete_def native_delitem_def delete_absent)

section \<open>What a write or a delete leaves alone\<close>

lemma delitem_frame:
  "convert k = Inr ck \<Longrightarrow> delitem s k = Inr s' \<Longrightarrow> frame_except ck s s'"
  by (auto simp: delitem_def frame_except_def native_delete_def native_delitem_def
      AList.delete_conv' split: if_splits option.splits)

lemma setitem_frame:
  assumes "convert k = Inr ck" and "setitem s k v = Inr s'"
  shows "frame_except ck s s'"
proof (cases v)
  case None
  with assms have "delitem s k = Inr s'" by (simp add: setitem_None)
  with assms(1) show ?thesis by (rule delitem_frame)
next
  case (Some x)
  with assms show ?thesis
    by (auto simp: setitem_def frame_except_def native_set_def native_setitem_def
        AList.update_conv' split: sum.splits if_splits)
qed

text \<open>
  Claim C10. On the transient in-memory backend, \<^verbatim>\<open>set\<close> and \<^verbatim>\<open>delete\<close> for a key with
  canonical form \<open>ck\<close> touch at most the entry under \<open>ck\<close>: every other canonical key
  has the same encoded value before and after, the backend is still the same \<^verbatim>\<open>dict\<close>
  and the serializer is the same.
\<close>

theorem memory_frame:
  assumes "database s = dict_backend es" and "convert k = Inr ck"
  shows "(\<forall>s'. setitem s k v = Inr s' \<longrightarrow> frame_except ck s s' \<and> attrs (database s') = dict_attrs)
       \<and> (\<forall>s'. delitem s k = Inr s' \<longrightarrow> frame_except ck s s' \<and> attrs (database s') = dict_attrs)"
  using assms setitem_frame [of k ck s v] delitem_frame [of k ck s]
  by (auto simp: frame_except_def dict_backend_def)

text \<open>Writing under "b" and deleting "b" again leave the entry under "a" as it is.\<close>

theorem memory_frame_witness:
  "database \<lparr>database = dict_backend [([97], [9])], serialize = raw_codec\<rparr>
     = dict_backend [([97], [9])]
   \<and> convert (PyStr [98]) = Inr [98]
   \<and> setitem \<lparr>database = dict_backend [([97], [9])], serialize = raw_codec\<rparr> (PyStr [98]) (Some [5])
       = Inr \<lparr>database = dict_backend [([97], [9]), ([98], [5])], serialize = raw_codec\<rparr>
   \<and> frame_except [98] \<lparr>database = dict_backend [([97], [9])], serialize = raw_codec\<rparr>
        \<lparr>database = dict_backend [([97], [9]), ([98], [5])], serialize = raw_codec\<rparr>
   \<and> delitem \<lparr>database = dict_backend [([97], [9]), ([98], [5])], serialize = raw_codec\<rparr> (PyStr [98])
       = Inr \<lparr>database = dict_backend [([97], [9])], serialize = raw_codec\<rparr>
   \<and> frame_except [98] \<lparr>database = dict_backend [([97], [9]), ([98], [5])], serialize = raw_codec\<rparr>
        \<lparr>database = dict_backend [([97], [9])], serialize = raw_codec\<rparr>"
proof -
  let ?s0 = "\<lparr>database = dict_backend [([97], [9])], serialize = raw_codec\<rparr>"
  let ?s1 = "\<lparr>database = dict_backend [([97], [9]), ([98], [5])], serialize = raw_codec\<rparr>"
  have h0: "database ?s0 = dict_backend [([97], [9])]" by simp
  have h1: "database ?s1 = dict_backend [([97], [9]), ([98], [5])]" by simp
  have h: "convert (PyStr [98]) = Inr [98]" by (simp add: utf8_char_def)
  have w: "setitem ?s0 (PyStr [98]) (Some [5]) = Inr ?s1"
    by (simp add: setitem_def utf8_char_def raw_codec_def dict_backend_def dict_attrs_def
        hasattr_def native_setitem_def)
  have d: "delitem ?s1 (PyStr [98]) = Inr ?s0"
    by (simp add: delitem_def utf8_char_def dict_backend_def dict_attrs_def
        hasattr_def native_delitem_def)
  from memory_frame [OF h0 h, of "Some [5]"] w have f1: "frame_except [98] ?s0 ?s1" by blast
  from memory_frame [OF h1 h, of None] d have f2: "frame_except [98] ?s1 ?s0" by blast
  show ?thesis using h0 h w f1 d f2 by blast
qed

section \<open>Calling the store\<close>


section \<open>Writing, then reading\<close>

text \<open>
  Claim C1, amended. For every key that normalises, every backend state and every value
  \<open>v\<close> whose encoding \<^verbatim>\<open>dumps(v)\<close> is a non-empty byte string that \<^verbatim>\<open>loads\<close> decodes to \<open>v\<close>:
  \<^verbatim>\<open>set(k, v)\<close> returns, and \<^verbatim>\<open>get(k)\<close> on the resulting store returns \<open>v\<close>.
\<close>

theorem set_then_get:
  assumes "convert k = Inr ck" and "dumps (serialize s) v = Inr b" and "b \<noteq> []"
    and "loads (serialize s) b = Inr (Some v)"
  shows "\<exists>s'. setitem s k (Some v) = Inr s' \<and> getitem s' k = Inr (Some v)"
  using assms
  by (simp add: setitem_def getitem_def native_set_def native_setitem_def native_get_def
      native_getitem_def hasattr_def AList.update_conv')

text \<open>With the tagging serializer, the value written under the integer 7 is read back.\<close>

theorem set_then_get_witness:
  "convert (PyNumber (PInt 7)) = Inr [0x37]
   \<and> dumps (serialize (new_memory tagged_codec)) [1, 2] = Inr [1, 1, 2]
   \<and> loads (serialize (new_memory tagged_codec)) [1, 1, 2] = Inr (Some [1, 2])
   \<and> (\<exists>s'. setitem (new_memory tagged_codec) (PyNumber (PInt 7)) (Some [1, 2]) = Inr s'
          \<and> getitem s' (PyNumber (PInt 7)) = Inr (Some [1, 2]))"
proof -
  have h1: "convert (PyNumber (PInt 7)) = Inr [0x37]"
    by (simp add: str_int_def str_nat.simps utf8_char_def)
  have h2: "dumps (serialize (new_memory tagged_codec)) [1, 2] = Inr [1, 1, 2]"
    by (simp add: new_memory_def tagged_codec_def)
  have h3: "[1, 1, 2] \<noteq> ([] :: bytes)" by simp
  have h4: "loads (serialize (new_memory tagged_codec)) [1, 1, 2] = Inr (Some [1, 2])"
    by (simp add: new_memory_def tagged_codec_def)
  from set_then_get [OF h1 h2 h3 h4] h1 h2 h4 show ?thesis by simp
qed

text \<open>
  Without the condition that the encoding is non-empty the round trip fails: with the
  identity serializer, whose \<^verbatim>\<open>loads\<close> inverts its \<^verbatim>\<open>dumps\<close>, the value \<^verbatim>\<open>b''\<close> is stored
  as the empty byte string, which \<^verbatim>\<open>__getitem__\<close> takes for no value.
\<close>

theorem set_then_get_counterexample:
  "convert (PyStr [107]) = Inr [107]
   \<and> dumps raw_codec [] = Inr []
   \<and> loads raw_codec [] = Inr (Some [])
   \<and> setitem (new_memory raw_codec) (PyStr [107]) (Some [])
       = Inr \<lparr>database = dict_backend [([107], [])], serialize = raw_codec\<rparr>
   \<and> getitem \<lparr>database = dict_backend [([107], [])], serialize = raw_codec\<rparr> (PyStr [107])
       = Inr None"
  by (simp add: raw_codec_def setitem_def getitem_def new_memory_def dict_backend_def
      dict_attrs_def hasattr_def native_setitem_def native_get_def utf8_char_def)

section \<open>Reading a missing key\<close>

text \<open>
  Where the backend exposes \<^verbatim>\<open>get\<close> (a \<^verbatim>\<open>dict\<close> and a \<^verbatim>\<open>dbm\<close> handle do), reading a key that
  is not stored yields \<^verbatim>\<open>None\<close>; writing \<^verbatim>\<open>None\<close> is deleting, and the key then reads as
  \<^verbatim>\<open>None\<close>.
\<close>

lemma absence_with_native_get:
  assumes "hasattr (database s) A_get" and "convert k = Inr ck"
  shows "(map_of (entries (database s)) ck = None \<longrightarrow> getitem s k = Inr None)
       \<and> setitem s k None = delitem s k
       \<and> (\<exists>s'. setitem s k None = Inr s' \<and> getitem s' k = Inr None)"
  using assms
  by (auto simp: setitem_def getitem_def delitem_def native_get_def native_delete_def
      native_delitem_def hasattr_def AList.delete_conv' split: option.splits)

text \<open>
  Claim C2. The claim that \<^verbatim>\<open>get\<close> returns \<^verbatim>\<open>None\<close> for a key that was never set, and
  after \<^verbatim>\<open>set(k, None)\<close>, without ever raising, fails on a backend that does not expose
  \<^verbatim>\<open>get\<close>: \<^verbatim>\<open>__getitem__\<close> of the backend raises \<^verbatim>\<open>KeyError\<close>, which \<^verbatim>\<open>KVS.__getitem__\<close>
  does not catch (\<^verbatim>\<open>KVS.__delitem__\<close> does). On the empty store \<^verbatim>\<open>get("a")\<close> raises
  \<^verbatim>\<open>KeyError\<close>, and \<^verbatim>\<open>set("a", None)\<close> on a store holding "a" yields that empty store.
\<close>

theorem get_missing_raises:
  "getitem \<lparr>database = bare_backend [], serialize = raw_codec\<rparr> (PyStr [97]) = Inl KeyError
   \<and> setitem \<lparr>database = bare_backend [([97], [1])], serialize = raw_codec\<rparr> (PyStr [97]) None
       = Inr \<lparr>database = bare_backend [], serialize = raw_codec\<rparr>"
  by (simp add: getitem_def setitem_def delitem_def bare_backend_def hasattr_def
      native_getitem_def native_delitem_def utf8_char_def)

section \<open>Popping\<close>

text \<open>
  Where the backend exposes \<^verbatim>\<open>get\<close>, \<^verbatim>\<open>pop\<close> returns what \<^verbatim>\<open>get\<close> returns, removes the
  entry so that the key then reads as \<^verbatim>\<open>None\<close>, raises only what \<^verbatim>\<open>get\<close> raises, and on
  a missing key returns \<^verbatim>\<open>None\<close> and leaves the store as it was.
\<close>

lemma pop_with_native_get:
  assumes "hasattr (database s) A_get" and "convert k = Inr ck"
  shows "(getitem s k = Inr r \<longrightarrow> (\<exists>s'. pop s k = Inr (r, s') \<and> getitem s' k = Inr None))
       \<and> (getitem s k = Inl e \<longrightarrow> pop s k = Inl e)
       \<and> (map_of (entries (database s)) ck = None \<longrightarrow> pop s k = Inr (None, s))"
proof -
  from delitem_returns [OF assms(2)] obtain s' where d: "delitem s k = Inr s'"
    and a: "map_of (entries (database s')) ck = None"
    by auto
  from delitem_frame [OF assms(2) d] assms(1) have "hasattr (database s') A_get"
    by (simp add: frame_except_def hasattr_def)
  with a assms(2) have g: "getitem s' k = Inr None" by (simp add: getitem_def native_get_def)
  have 1: "getitem s k = Inr r \<longrightarrow> (\<exists>s'. pop s k = Inr (r, s') \<and> getitem s' k = Inr None)"
    using d g by (simp add: pop_def)
  have 2: "getitem s k = Inl e \<longrightarrow> pop s k = Inl e"
    by (simp add: pop_def)
  have 3: "map_of (entries (database s)) ck = None \<longrightarrow> pop s k = Inr (None, s)"
  proof
    assume m: "map_of (entries (database s)) ck = None"
    with assms have "getitem s k = Inr None" by (simp add: getitem_def native_get_def)
    moreover from assms(2) m have "delitem s k = Inr s" by (rule delitem_absent)
    ultimately show "pop s k = Inr (None, s)" by (simp add: pop_def)
  qed
  from 1 2 3 show ?thesis by blast
qed

text \<open>
  Claim C7. The claim that \<^verbatim>\<open>pop\<close> on a missing key returns \<^verbatim>\<open>None\<close> without raising, and
  that \<^verbatim>\<open>get\<close> after a \<^verbatim>\<open>pop\<close> returns \<^verbatim>\<open>None\<close>, fails on a backend that does not expose
  \<^verbatim>\<open>get\<close>: on the empty store \<^verbatim>\<open>pop("a")\<close> raises \<^verbatim>\<open>KeyError\<close>; on a store holding "a" it
  returns the value and empties the store, on which \<^verbatim>\<open>get("a")\<close> raises \<^verbatim>\<open>KeyError\<close>.
\<close>

theorem pop_missing_raises:
  "pop \<lparr>database = bare_backend [], serialize = raw_codec\<rparr> (PyStr [97]) = Inl KeyError
   \<and> pop \<lparr>database = bare_backend [([97], [1])], serialize = raw_codec\<rparr> (PyStr [97])
       = Inr (Some [1], \<lparr>database = bare_backend [], serialize = raw_codec\<rparr>)
   \<and> getitem \<lparr>database = bare_backend [], serialize = raw_codec\<rparr> (PyStr [97]) = Inl KeyError"
  by (simp add: pop_def getitem_def delitem_def bare_backend_def hasattr_def raw_codec_def
      native_getitem_def native_delitem_def utf8_char_def)

section \<open>Closing\<close>

text \<open>
  Claim C8, amended. \<^verbatim>\<open>close\<close> calls the backend's \<^verbatim>\<open>sync\<close> and then its \<^verbatim>\<open>close\<close>, each
  when the backend exposes it, and changes nothing else; it does so on every call, as the
  facade keeps no record of having been closed. On the transient in-memory backend,
  which exposes neither, \<^verbatim>\<open>close\<close>, a second \<^verbatim>\<open>close\<close> and the finalizer leave the store
  as it is.
\<close>

theorem close_effect:
  "calls (database (close s)) =
     calls (database s) @ (if hasattr (database s) A_sync then [A_sync] else [])
       @ (if hasattr (database s) A_close then [A_close] else [])
   \<and> entries (database (close s)) = entries (database s)
   \<and> attrs (database (close s)) = attrs (database s)
   \<and> serialize (close s) = serialize s
   \<and> close \<lparr>database = dict_backend es, serialize = c\<rparr> = \<lparr>database = dict_backend es, serialize = c\<rparr>
   \<and> close (close \<lparr>database = dict_backend es, serialize = c\<rparr>)
       = \<lparr>database = dict_backend es, serialize = c\<rparr>
   \<and> kvs_del \<lparr>database = dict_backend es, serialize = c\<rparr> = \<lparr>database = dict_backend es, serialize = c\<rparr>"
  by (simp add: kvs_del_def close_def sync_def hasattr_def native_call_def Let_def dict_backend_def
      dict_attrs_def)

text \<open>
  On a backend that exposes \<^verbatim>\<open>sync\<close> and \<^verbatim>\<open>close\<close> the second \<^verbatim>\<open>close\<close> is not a no-op: the
  backend is synced and closed a second time.
\<close>

theorem close_twice_counterexample:
  "calls (database (close \<lparr>database = dbm_backend [], serialize = raw_codec\<rparr>)) = [A_sync, A_close]
   \<and> calls (database (close (close \<lparr>database = dbm_backend [], serialize = raw_codec\<rparr>)))
       = [A_sync, A_close, A_sync, A_close]
   \<and> close (close \<lparr>database = dbm_backend [], serialize = raw_codec\<rparr>)
       \<noteq> close \<lparr>database = dbm_backend [], serialize = raw_codec\<rparr>"
  by (simp add: close_def sync_def hasattr_def native_call_def Let_def dbm_backend_def dbm_attrs_def)

section \<open>Membership and reading\<close>
























end
